theory Spec2Isabelle
  imports Main "HOL-Library.Word" "HOL-Library.Monad_Syntax"
begin

unbundle bit_operations_syntax

section \<open>The hello file system of myhello.c\<close>

text \<open>
  The file embeds the four request handlers of
  \<^verbatim>\<open>code/examples/libfuse-C-Example/myhello.c\<close> and the table \<^verbatim>\<open>hello_oper\<close>
  that hands them to libfuse. The platform is the one libfuse 3 runs on, LP64 Linux:
  \<^verbatim>\<open>size_t\<close> is an unsigned 64-bit word, \<^verbatim>\<open>off_t\<close> a signed 64-bit word, \<^verbatim>\<open>int\<close> and
  \<^verbatim>\<open>mode_t\<close> are 32 bits wide.
\<close>

subsection \<open>C strings\<close>

text \<open>
  A C string is modelled by the bytes in front of its terminating NUL. None of those bytes
  is NUL, so the terminator is below every byte of a string. The C standard fixes only the
  sign of what \<^verbatim>\<open>strcmp\<close> returns; the model returns -1, 0 or 1. Bytes are compared as
  \<^verbatim>\<open>unsigned char\<close>.
\<close>

fun strcmp :: "string \<Rightarrow> string \<Rightarrow> int" where
  "strcmp [] [] = 0"
| "strcmp [] (y # ys) = - 1"
| "strcmp (x # xs) [] = 1"
| "strcmp (x # xs) (y # ys) =
     (if x = y then strcmp xs ys
      else if (of_char x :: nat) < of_char y then - 1 else 1)"

text \<open>\<^verbatim>\<open>strlen\<close> returns a \<^verbatim>\<open>size_t\<close>.\<close>

definition strlen :: "string \<Rightarrow> 64 word" where
  "strlen s = of_nat (length s)"

text \<open>
  \<^verbatim>\<open>s + n\<close> for a pointer \<^verbatim>\<open>s\<close> to a string: the string that starts \<open>n\<close> bytes further.
  \<^verbatim>\<open>s + length s\<close> points at the terminator and is the empty string. Anything beyond is
  outside the string, and reading it is undefined: \<open>None\<close>.
\<close>

definition ptr_add :: "string \<Rightarrow> nat \<Rightarrow> string option" where
  "ptr_add s n = (if n \<le> length s then Some (drop n s) else None)"

text \<open>
  \<^verbatim>\<open>memcpy(dst, src + off, n)\<close>, seen from the source: the \<open>n\<close> bytes it stores at the
  destination. The storage of the string \<open>src\<close> is its bytes and the terminator; a range
  that leaves it is an out-of-bounds read: \<open>None\<close>. Room for \<open>n\<close> bytes at the destination
  is the caller's obligation.
\<close>

definition memcpy :: "string \<Rightarrow> nat \<Rightarrow> nat \<Rightarrow> string option" where
  "memcpy src off n =
     (if off + n \<le> length src + 1 then Some (take n (drop off (src @ [CHR 0x00]))) else None)"

subsection \<open>Constants of the system headers\<close>

text \<open>
  The values of \<^verbatim>\<open><errno.h>\<close>, \<^verbatim>\<open><fcntl.h>\<close> and \<^verbatim>\<open><sys/stat.h>\<close> on Linux. The headers
  are not part of the repository. The C source writes the modes in octal.
\<close>

definition ENOENT :: int where "ENOENT = 2"
definition EACCES :: int where "EACCES = 13"

definition O_RDONLY :: "32 word" where "O_RDONLY = 0"
definition O_WRONLY :: "32 word" where "O_WRONLY = 1"
definition O_RDWR :: "32 word" where "O_RDWR = 2"
definition O_ACCMODE :: "32 word" where "O_ACCMODE = 3"
definition O_TRUNC :: "32 word" where "O_TRUNC = 512"    \<comment> \<open>01000\<close>
definition O_APPEND :: "32 word" where "O_APPEND = 1024"  \<comment> \<open>02000\<close>

definition S_IFMT :: "32 word" where "S_IFMT = 61440"    \<comment> \<open>0170000\<close>
definition S_IFDIR :: "32 word" where "S_IFDIR = 16384"  \<comment> \<open>0040000\<close>
definition S_IFREG :: "32 word" where "S_IFREG = 32768"  \<comment> \<open>0100000\<close>

subsection \<open>Data\<close>

text \<open>\<^verbatim>\<open>struct options\<close>, the one global of the program (lines 24-27).\<close>

record options =
  f_name :: string
  contents :: string

text \<open>The defaults that \<^verbatim>\<open>main\<close> stores before it parses the command line (lines 124-125).\<close>

definition default_options :: options where
  "default_options = \<lparr>f_name = ''Hello'', contents = ''Hello World!'' @ [CHR 0x0A]\<rparr>"

text \<open>
  \<^verbatim>\<open>struct timespec\<close> and \<^verbatim>\<open>struct stat\<close> with the fields POSIX gives them.
  \<^verbatim>\<open>st_size\<close> is an \<^verbatim>\<open>off_t\<close>: \<open>sint\<close> reads it.
\<close>

record timespec =
  tv_sec :: "64 word"
  tv_nsec :: "64 word"

record stat =
  st_dev :: "64 word"
  st_ino :: "64 word"
  st_mode :: "32 word"
  st_nlink :: "64 word"
  st_uid :: "32 word"
  st_gid :: "32 word"
  st_rdev :: "64 word"
  st_size :: "64 word"
  st_blksize :: "64 word"
  st_blocks :: "64 word"
  st_atim :: timespec
  st_mtim :: timespec
  st_ctim :: timespec

text \<open>\<^verbatim>\<open>memset(sbuf, 0, sizeof(struct stat))\<close> leaves this value, whatever was there.\<close>

definition zero_stat :: stat where
  "zero_stat = \<lparr>st_dev = 0, st_ino = 0, st_mode = 0, st_nlink = 0, st_uid = 0, st_gid = 0,
     st_rdev = 0, st_size = 0, st_blksize = 0, st_blocks = 0,
     st_atim = \<lparr>tv_sec = 0, tv_nsec = 0\<rparr>,
     st_mtim = \<lparr>tv_sec = 0, tv_nsec = 0\<rparr>,
     st_ctim = \<lparr>tv_sec = 0, tv_nsec = 0\<rparr>\<rparr>"

text \<open>The one field of \<^verbatim>\<open>struct fuse_file_info\<close> that the program reads.\<close>

record fuse_file_info =
  flags :: "32 word"

subsection \<open>The handlers\<close>

text \<open>
  Every handler reads the global \<^verbatim>\<open>options\<close>, which is its first argument here, and
  returns an \<^verbatim>\<open>int\<close>: 0 or a byte count, or a negated error number. What a handler
  stores through a pointer argument is returned beside the \<^verbatim>\<open>int\<close>. \<open>None\<close> is
  undefined behaviour: a read outside a string.
\<close>

text \<open>
  \<^verbatim>\<open>hello_getattr\<close> (lines 44-62). \<open>sbuf\<close> is what the caller's buffer holds at the call;
  the result is what it holds at the return.
\<close>

definition hello_getattr :: "options \<Rightarrow> string \<Rightarrow> stat \<Rightarrow> (stat \<times> int) option" where
  "hello_getattr opts path sbuf =
     (let result = 0;
          sbuf = zero_stat
      in if strcmp path ''/'' = 0 then
           Some (sbuf\<lparr>st_mode := S_IFDIR OR 493, st_nlink := 2\<rparr>, result)
         else
           (case ptr_add path 1 of
              None \<Rightarrow> None
            | Some path1 \<Rightarrow>
                if strcmp path1 (f_name opts) = 0 then
                  Some (sbuf\<lparr>st_mode := S_IFREG OR 292, st_nlink := 1,
                               st_size := strlen (contents opts)\<rparr>, result)
                else Some (sbuf, - ENOENT)))"

text \<open>
  The spec's \<open>resolve\<close> is no function of the source: it names which of the three
  branches of \<^verbatim>\<open>hello_getattr\<close> (lines 50-59) a path takes.
\<close>

datatype entry = Root | File | NotFound

definition resolve :: "options \<Rightarrow> string \<Rightarrow> entry option" where
  "resolve opts path =
     (if strcmp path ''/'' = 0 then Some Root
      else
        (case ptr_add path 1 of
           None \<Rightarrow> None
         | Some path1 \<Rightarrow>
             if strcmp path1 (f_name opts) = 0 then Some File else Some NotFound))"

text \<open>
  \<^verbatim>\<open>hello_readdir\<close> (lines 64-78). \<open>filler\<close> is the caller's function that adds an entry
  to the caller's buffer \<open>buff\<close>; the handler calls it with a null \<^verbatim>\<open>stat\<close> pointer,
  offset 0 and flags 0 and drops the \<^verbatim>\<open>int\<close> it returns, so the model's \<open>filler\<close>
  returns the buffer only. \<open>offset\<close>, \<open>file_info\<close> and \<open>flags\<close> are cast to void.
\<close>

type_synonym 'b fuse_fill_dir_t = "'b \<Rightarrow> string \<Rightarrow> stat option \<Rightarrow> 64 word \<Rightarrow> 32 word \<Rightarrow> 'b"

definition hello_readdir :: "options \<Rightarrow> string \<Rightarrow> 'b \<Rightarrow> 'b fuse_fill_dir_t \<Rightarrow> 'b \<times> int" where
  "hello_readdir opts path buff filler =
     (if strcmp path ''/'' \<noteq> 0 then (buff, - ENOENT)
      else
        (let buff = filler buff ''.'' None 0 0;
             buff = filler buff ''..'' None 0 0;
             buff = filler buff (f_name opts) None 0 0
         in (buff, 0)))"

text \<open>A filler that keeps the names it is given, in the order of the calls.\<close>

definition list_filler :: "string list fuse_fill_dir_t" where
  "list_filler buff name st off fl = buff @ [name]"

text \<open>\<^verbatim>\<open>hello_open\<close> (lines 80-90).\<close>

definition hello_open :: "options \<Rightarrow> string \<Rightarrow> fuse_file_info \<Rightarrow> int option" where
  "hello_open opts path file_info =
     (case ptr_add path 1 of
        None \<Rightarrow> None
      | Some path1 \<Rightarrow>
          if strcmp path1 (f_name opts) \<noteq> 0 then Some (- ENOENT)
          else if (flags file_info AND O_ACCMODE) \<noteq> O_RDONLY then Some (- EACCES)
          else Some 0)"

text \<open>
  \<^verbatim>\<open>hello_read\<close> (lines 92-109). \<open>sz\<close> is the source's \<^verbatim>\<open>size\<close>. The result is the bytes stored at \<^verbatim>\<open>buff\<close> and the
  \<^verbatim>\<open>int\<close> returned. \<^verbatim>\<open>offset < len\<close> and \<^verbatim>\<open>offset + size > len\<close> are evaluated in
  \<^verbatim>\<open>size_t\<close>, the common type of \<^verbatim>\<open>off_t\<close> and \<^verbatim>\<open>size_t\<close>, so the sum wraps at 2^64.
  \<^verbatim>\<open>return size\<close> converts the \<^verbatim>\<open>size_t\<close> to \<^verbatim>\<open>int\<close>: its low 32 bits, read signed.
\<close>

definition hello_read :: "options \<Rightarrow> string \<Rightarrow> 64 word \<Rightarrow> 64 word \<Rightarrow> (string \<times> int) option" where
  "hello_read opts path sz offset =
     (case ptr_add path 1 of
        None \<Rightarrow> None
      | Some path1 \<Rightarrow>
          if strcmp path1 (f_name opts) \<noteq> 0 then Some ([], - ENOENT)
          else
            (let len = strlen (contents opts) in
             if offset < len then
               (let sz = (if offset + sz > len then len - offset else sz) in
                case memcpy (contents opts) (unat offset) (unat sz) of
                  None \<Rightarrow> None
                | Some bytes \<Rightarrow> Some (bytes, sint (ucast sz :: 32 word)))
             else
               (let sz = (0 :: 64 word) in
                Some ([], sint (ucast sz :: 32 word)))))"

subsection \<open>The handlers on the memory of the process\<close>

















subsection \<open>The table of handlers and the requests of libfuse\<close>













section \<open>Facts about the C library model\<close>

lemma strcmp_eq_0 [simp]: "strcmp xs ys = 0 \<longleftrightarrow> xs = ys"
  by (induction xs ys rule: strcmp.induct) auto

lemma ptr_add_1_Cons [simp]: "ptr_add (c # rest) (Suc 0) = Some rest"
  by (simp add: ptr_add_def)

lemma ptr_add_1_Nil [simp]: "ptr_add [] (Suc 0) = None"
  by (simp add: ptr_add_def)

lemma unat_strlen: "length s < 2 ^ 64 \<Longrightarrow> unat (strlen s) = length s"
  unfolding strlen_def by (simp add: unat_of_nat)

text \<open>A \<^verbatim>\<open>size_t\<close> below 2^31 survives the conversion to \<^verbatim>\<open>int\<close>.\<close>

lemma sint_ucast_small:
  fixes w :: "64 word"
  assumes "unat w < 2 ^ 31"
  shows "sint (ucast w :: 32 word) = int (unat w)"
proof -
  have "int (unat w) < int (2 ^ 31)"
    using assms by (simp only: of_nat_less_iff)
  then have lt: "uint w < 2 ^ 31"
    by (simp only: uint_nat of_nat_power of_nat_numeral)
  have ge: "- (2 ^ 31) \<le> uint w"
    by (rule order_trans [of _ 0]) simp_all
  have "sint (ucast w :: 32 word) = signed_take_bit 31 (uint w)"
    by (simp add: signed_ucast_eq)
  also have "\<dots> = uint w"
    using ge lt by (rule signed_take_bit_int_eq_self)
  finally show ?thesis by (simp only: uint_nat)
qed

text \<open>A non-negative \<^verbatim>\<open>off_t\<close> keeps its value when it is converted to \<^verbatim>\<open>size_t\<close>.\<close>

lemma nat_sint_eq_unat:
  fixes w :: "64 word"
  assumes "0 \<le> sint w"
  shows "nat (sint w) = unat w"
proof -
  have s: "sint w = signed_take_bit 63 (uint w)"
    by (simp add: sint_uint)
  have lt: "uint w < 2 ^ 63"
  proof (rule ccontr)
    assume "\<not> uint w < 2 ^ 63"
    then have "2 ^ 63 \<le> uint w" by (simp only: not_less)
    then have "signed_take_bit 63 (uint w) \<le> uint w - 2 ^ Suc 63"
      by (rule signed_take_bit_int_less_eq)
    moreover have "uint w < 2 ^ Suc 63"
      using uint_lt2p [of w] by simp
    ultimately show False using assms s by linarith
  qed
  have ge: "- (2 ^ 63) \<le> uint w"
    by (rule order_trans [of _ 0]) simp_all
  have "signed_take_bit 63 (uint w) = uint w"
    using ge lt by (rule signed_take_bit_int_eq_self)
  then show ?thesis using s by (simp only: unat_eq_nat_uint)
qed

section \<open>Reading a byte range\<close>

text \<open>
  What \<^verbatim>\<open>hello_read\<close> does once the bytes behind the first byte of the path are the file
  name: it stores the requested part of the contents and returns how many bytes that is,
  as long as \<^verbatim>\<open>offset + size\<close> does not wrap and the count fits an \<^verbatim>\<open>int\<close>.
\<close>

lemma hello_read_slice:
  assumes path1: "ptr_add path 1 = Some (f_name opts)"
    and len: "length (contents opts) < 2 ^ 64"
    and nowrap: "unat offset < length (contents opts) \<longrightarrow> unat offset + unat sz < 2 ^ 64"
    and fits: "min (unat sz) (length (contents opts) - unat offset) < 2 ^ 31"
  shows "hello_read opts path sz offset =
    Some (take (unat sz) (drop (unat offset) (contents opts)),
          int (min (unat sz) (length (contents opts) - unat offset)))"
proof (cases "offset < strlen (contents opts)")
  case False
  then have "length (contents opts) \<le> unat offset"
    using len by (simp add: word_less_nat_alt unat_strlen)
  then show ?thesis using False path1
    by (simp add: hello_read_def)
next
  case True
  then have lt: "unat offset < length (contents opts)"
    using len by (simp add: word_less_nat_alt unat_strlen)
  with nowrap have nw: "unat offset + unat sz < 2 ^ 64" by simp
  have sum: "unat (offset + sz) = unat offset + unat sz"
    using nw unat_add_lem [of offset sz] by simp
  show ?thesis
  proof (cases "offset + sz > strlen (contents opts)")
    case clamp: True
    have rest: "unat (strlen (contents opts) - offset) = length (contents opts) - unat offset"
      using True len by (simp add: unat_sub unat_strlen word_less_nat_alt word_le_nat_alt)
    have more: "length (contents opts) < unat offset + unat sz"
      using clamp len sum by (simp add: word_less_nat_alt unat_strlen)
    then have m: "min (unat sz) (length (contents opts) - unat offset) =
        length (contents opts) - unat offset"
      by simp
    have r: "sint (ucast (strlen (contents opts) - offset) :: 32 word) =
        int (length (contents opts) - unat offset)"
      using fits m rest sint_ucast_small [of "strlen (contents opts) - offset"] by simp
    show ?thesis using True clamp path1 lt more
      by (simp add: hello_read_def memcpy_def rest r m)
  next
    case noclamp: False
    have less: "unat offset + unat sz \<le> length (contents opts)"
      using noclamp len sum by (simp add: word_less_nat_alt unat_strlen)
    then have m: "min (unat sz) (length (contents opts) - unat offset) = unat sz"
      by simp
    have r: "sint (ucast sz :: 32 word) = int (unat sz)"
      using fits m sint_ucast_small [of sz] by simp
    show ?thesis using True noclamp path1 lt less
      by (simp add: hello_read_def memcpy_def r m)
  qed
qed

lemma resolve_File_path1:
  "resolve opts path = Some File \<Longrightarrow> ptr_add path 1 = Some (f_name opts)"
  by (auto simp: resolve_def split: if_splits option.splits)

text \<open>
  C1, as amended. For every path that resolves to the file, every offset \<open>\<ge> 0\<close> and every
  size such that \<^verbatim>\<open>offset + size\<close> does not wrap at 2^64 (when the offset lies inside the
  contents) and the number of bytes to return is below 2^31, \<^verbatim>\<open>hello_read\<close> does not
  fail: it stores the bytes \<open>contents[offset : min (offset + size) (length contents)]\<close> and
  returns their number. Inside the contents that number is
  \<open>min size (length contents - offset)\<close>; at or behind the end nothing is stored and 0 is
  returned, which is no error. The contents are a C string of a 64-bit address space.
\<close>

theorem read_range_slice:
  assumes isfile: "resolve opts path = Some File"
    and off: "0 \<le> sint offset"
    and len: "length (contents opts) < 2 ^ 64"
    and nowrap: "nat (sint offset) < length (contents opts) \<longrightarrow>
                   nat (sint offset) + unat sz < 2 ^ 64"
    and fits: "min (unat sz) (length (contents opts) - nat (sint offset)) < 2 ^ 31"
  shows "\<exists>bytes. hello_read opts path sz offset = Some (bytes, int (length bytes)) \<and>
     bytes = take (min (nat (sint offset) + unat sz) (length (contents opts)) - nat (sint offset))
               (drop (nat (sint offset)) (contents opts)) \<and>
     (nat (sint offset) < length (contents opts) \<longrightarrow>
        length bytes = min (unat sz) (length (contents opts) - nat (sint offset))) \<and>
     (length (contents opts) \<le> nat (sint offset) \<longrightarrow> bytes = [])"
proof -
  have o: "nat (sint offset) = unat offset"
    using off by (rule nat_sint_eq_unat)
  have rd: "hello_read opts path sz offset =
    Some (take (unat sz) (drop (unat offset) (contents opts)),
          int (min (unat sz) (length (contents opts) - unat offset)))"
    using resolve_File_path1 [OF isfile] len nowrap fits unfolding o
    by (rule hello_read_slice)
  have tk: "take (min (unat offset + unat sz) (length (contents opts)) - unat offset)
              (drop (unat offset) (contents opts)) =
            take (unat sz) (drop (unat offset) (contents opts))"
    by (cases "unat offset + unat sz \<le> length (contents opts)") simp_all
  let ?b = "take (unat sz) (drop (unat offset) (contents opts))"
  have 1: "hello_read opts path sz offset = Some (?b, int (length ?b))"
    using rd by (simp add: min.commute)
  have 2: "?b = take (min (unat offset + unat sz) (length (contents opts)) - unat offset)
              (drop (unat offset) (contents opts))"
    using tk by simp
  have 3: "length ?b = min (unat sz) (length (contents opts) - unat offset)"
    by (simp add: min.commute)
  have 4: "length (contents opts) \<le> unat offset \<longrightarrow> ?b = []"
    by simp
  show ?thesis unfolding o using 1 2 3 4 by blast
qed

text \<open>
  The hypotheses of C1 hold for the default file, read at offset 6 for 5 bytes and at
  offset 13, the end of the contents, for 10 bytes.
\<close>

theorem read_range_slice_witness:
  "resolve default_options ''/Hello'' = Some File \<and>
   hello_read default_options ''/Hello'' 5 6 = Some (''World'', 5) \<and>
   hello_read default_options ''/Hello'' 10 13 = Some ([], 0)"
proof -
  have f: "resolve default_options ''/Hello'' = Some File"
    by (simp add: resolve_def default_options_def)
  have a: "\<exists>bytes. hello_read default_options ''/Hello'' 5 6 = Some (bytes, int (length bytes)) \<and>
     bytes = take (min (nat (sint (6::64 word)) + unat (5::64 word)) (length (contents default_options)) - nat (sint (6::64 word)))
               (drop (nat (sint (6::64 word))) (contents default_options)) \<and>
     (nat (sint (6::64 word)) < length (contents default_options) \<longrightarrow>
        length bytes = min (unat (5::64 word)) (length (contents default_options) - nat (sint (6::64 word)))) \<and>
     (length (contents default_options) \<le> nat (sint (6::64 word)) \<longrightarrow> bytes = [])"
    by (rule read_range_slice [OF f]) (simp_all add: default_options_def)
  have b: "\<exists>bytes. hello_read default_options ''/Hello'' 10 13 = Some (bytes, int (length bytes)) \<and>
     bytes = take (min (nat (sint (13::64 word)) + unat (10::64 word)) (length (contents default_options)) - nat (sint (13::64 word)))
               (drop (nat (sint (13::64 word))) (contents default_options)) \<and>
     (nat (sint (13::64 word)) < length (contents default_options) \<longrightarrow>
        length bytes = min (unat (10::64 word)) (length (contents default_options) - nat (sint (13::64 word)))) \<and>
     (length (contents default_options) \<le> nat (sint (13::64 word)) \<longrightarrow> bytes = [])"
    by (rule read_range_slice [OF f]) (simp_all add: default_options_def)
  from f a b show ?thesis by (auto simp: default_options_def)
qed

text \<open>
  C1 as it is stated, for every size, fails on the code. With offset 1 and size 2^64 - 1
  the sum \<^verbatim>\<open>offset + size\<close> wraps to 0, the size is not cut down, and \<^verbatim>\<open>memcpy\<close> reads
  far beyond the 13 bytes of the default contents. With contents of 2^31 bytes, read whole,
  \<^verbatim>\<open>return size\<close> converts 2^31 to the \<^verbatim>\<open>int\<close> -2^31: libfuse is handed a negative
  number, which is an error to it.
\<close>

theorem read_range_counterexample:
  "resolve default_options ''/Hello'' = Some File \<and>
   hello_read default_options ''/Hello'' 18446744073709551615 1 = None \<and>
   resolve \<lparr>f_name = ''Hello'', contents = replicate (2 ^ 31) (CHR ''a'')\<rparr> ''/Hello'' = Some File \<and>
   hello_read \<lparr>f_name = ''Hello'', contents = replicate (2 ^ 31) (CHR ''a'')\<rparr> ''/Hello'' (2 ^ 31) 0 =
     Some (replicate (2 ^ 31) (CHR ''a''), - (2 ^ 31))"
  by (simp add: resolve_def hello_read_def default_options_def strlen_def memcpy_def)

section \<open>Resolving a path and reporting its attributes\<close>

text \<open>
  A file size of a 64-bit address space is below 2^63, and \<^verbatim>\<open>st_size\<close>, read as an
  \<^verbatim>\<open>off_t\<close>, is that size.
\<close>

lemma sint_strlen:
  assumes "length s < 2 ^ 63"
  shows "sint (strlen s) = int (length s)"
proof -
  have "int (length s) < int (2 ^ 63)"
    using assms by (simp only: of_nat_less_iff)
  then have lt: "int (length s) < 2 ^ 63"
    by (simp only: of_nat_power of_nat_numeral)
  have ge: "- (2 ^ 63) \<le> int (length s)"
    by (rule order_trans [of _ 0]) simp_all
  have "sint (strlen s) = signed_take_bit 63 (int (length s))"
    by (simp add: strlen_def signed_of_nat)
  also have "\<dots> = int (length s)"
    using ge lt by (rule signed_take_bit_int_eq_self)
  finally show ?thesis .
qed

text \<open>
  On a path that has a first byte, \<^verbatim>\<open>path + 1\<close> is the rest of the path, and the branches
  of \<^verbatim>\<open>hello_getattr\<close> are decided by plain equality of strings.
\<close>

lemma resolve_Cons:
  "resolve opts (c # rest) =
     Some (if c # rest = ''/'' then Root else if rest = f_name opts then File else NotFound)"
  by (simp add: resolve_def)

lemma hello_getattr_Cons:
  "hello_getattr opts (c # rest) sbuf =
     Some (if c # rest = ''/'' then (zero_stat\<lparr>st_mode := S_IFDIR OR 493, st_nlink := 2\<rparr>, 0)
           else if rest = f_name opts
           then (zero_stat\<lparr>st_mode := S_IFREG OR 292, st_nlink := 1,
                   st_size := strlen (contents opts)\<rparr>, 0)
           else (zero_stat, - ENOENT))"
  by (simp add: hello_getattr_def)


text \<open>
  C3. For every path (a path has at least its first byte), \<open>resolve\<close> returns exactly one
  of \<open>Root\<close>, \<open>File\<close> and \<open>NotFound\<close>, and \<^verbatim>\<open>hello_getattr\<close> returns \<^verbatim>\<open>-ENOENT\<close> if and only
  if the path resolves to \<open>NotFound\<close>; otherwise it returns 0. For a path that begins with a
  slash it returns 0 for exactly the root path and the path of the configured file.
\<close>

theorem getattr_fails_iff_not_found:
  assumes "path \<noteq> []"
  shows "(\<exists>!e. resolve opts path = Some e) \<and>
    (\<exists>st r. hello_getattr opts path sbuf = Some (st, r) \<and>
       (r = - ENOENT \<longleftrightarrow> resolve opts path = Some NotFound) \<and>
       (r = 0 \<longleftrightarrow> resolve opts path \<noteq> Some NotFound) \<and>
       (hd path = CHR ''/'' \<longrightarrow> (r = 0 \<longleftrightarrow> path = ''/'' \<or> path = ''/'' @ f_name opts)))"
proof -
  from assms obtain c rest where p: "path = c # rest"
    by (cases path) auto
  show ?thesis unfolding p
    by (auto simp: resolve_Cons hello_getattr_Cons ENOENT_def)
qed

text \<open>
  C3 at the default configuration: a missing path fails with \<^verbatim>\<open>-ENOENT\<close>, the path of
  the file succeeds.
\<close>

theorem getattr_fails_iff_not_found_witness:
  "''/missing'' \<noteq> [] \<and>
   resolve default_options ''/missing'' = Some NotFound \<and>
   hello_getattr default_options ''/missing'' zero_stat = Some (zero_stat, - ENOENT) \<and>
   resolve default_options ''/Hello'' = Some File \<and>
   map_option snd (hello_getattr default_options ''/Hello'' zero_stat) = Some 0"
  using getattr_fails_iff_not_found [of "''/missing''" default_options zero_stat]
        getattr_fails_iff_not_found [of "''/Hello''" default_options zero_stat]
  by (simp add: resolve_Cons hello_getattr_Cons default_options_def)

text \<open>
  C4. For the root path \<^verbatim>\<open>hello_getattr\<close> succeeds with the kind directory, the
  permissions 0755 (493: all for the owner, read and execute for the others), 2 links and
  size 0. For a path that resolves to the file it succeeds with the kind regular file, the
  permissions 0444 (292: read only for everyone), 1 link and the size \<open>length contents\<close>,
  whatever the configuration. The permission bits are those under the mask 07777 (4095).
  The contents are a C string of a 64-bit address space, shorter than 2^63 bytes.
\<close>

theorem getattr_metadata:
  "(\<exists>st. hello_getattr opts ''/'' sbuf = Some (st, 0) \<and>
      st_mode st AND S_IFMT = S_IFDIR \<and> st_mode st AND 4095 = 493 \<and>
      st_nlink st = 2 \<and> st_size st = 0) \<and>
   (resolve opts path = Some File \<longrightarrow> length (contents opts) < 2 ^ 63 \<longrightarrow>
      (\<exists>st. hello_getattr opts path sbuf = Some (st, 0) \<and>
         st_mode st AND S_IFMT = S_IFREG \<and> st_mode st AND 4095 = 292 \<and>
         st_nlink st = 1 \<and> sint (st_size st) = int (length (contents opts))))"
proof (intro conjI impI)
  show "\<exists>st. hello_getattr opts ''/'' sbuf = Some (st, 0) \<and>
      st_mode st AND S_IFMT = S_IFDIR \<and> st_mode st AND 4095 = 493 \<and>
      st_nlink st = 2 \<and> st_size st = 0"
    by (simp add: hello_getattr_Cons zero_stat_def S_IFMT_def S_IFDIR_def)
next
  assume f: "resolve opts path = Some File" and len: "length (contents opts) < 2 ^ 63"
  from f obtain c rest where p: "path = c # rest"
    by (cases path) (auto simp: resolve_def)
  from f have "c # rest \<noteq> ''/''" and "rest = f_name opts"
    unfolding p by (auto simp: resolve_Cons split: if_splits)
  then show "\<exists>st. hello_getattr opts path sbuf = Some (st, 0) \<and>
         st_mode st AND S_IFMT = S_IFREG \<and> st_mode st AND 4095 = 292 \<and>
         st_nlink st = 1 \<and> sint (st_size st) = int (length (contents opts))"
    unfolding p using sint_strlen [OF len]
    by (simp add: hello_getattr_Cons zero_stat_def S_IFMT_def S_IFREG_def)
qed

text \<open>
  C4 at the default configuration: the file is a regular file (mode 0100444 = 33060) of
  13 bytes, the root a directory (mode 040755 = 16877).
\<close>

theorem getattr_metadata_witness:
  "resolve default_options ''/Hello'' = Some File \<and>
   length (contents default_options) < 2 ^ 63 \<and>
   hello_getattr default_options ''/Hello'' zero_stat =
     Some (zero_stat\<lparr>st_mode := 33060, st_nlink := 1, st_size := 13\<rparr>, 0) \<and>
   hello_getattr default_options ''/'' zero_stat =
     Some (zero_stat\<lparr>st_mode := 16877, st_nlink := 2\<rparr>, 0)"
  using getattr_metadata [of default_options zero_stat "''/Hello''"]
  by (simp add: resolve_Cons hello_getattr_Cons default_options_def strlen_def
      S_IFREG_def S_IFDIR_def)

text \<open>
  \<open>resolve\<close> names the branch that \<^verbatim>\<open>hello_getattr\<close> takes: the handler is \<open>resolve\<close>
  followed by what the branch stores and returns.
\<close>

lemma hello_getattr_resolve:
  "hello_getattr opts path sbuf =
     (case resolve opts path of
        None \<Rightarrow> None
      | Some Root \<Rightarrow> Some (zero_stat\<lparr>st_mode := S_IFDIR OR 493, st_nlink := 2\<rparr>, 0)
      | Some File \<Rightarrow>
          Some (zero_stat\<lparr>st_mode := S_IFREG OR 292, st_nlink := 1,
                  st_size := strlen (contents opts)\<rparr>, 0)
      | Some NotFound \<Rightarrow> Some (zero_stat, - ENOENT))"
  by (simp add: hello_getattr_def resolve_def split: option.splits)

text \<open>
  C6. For every path, which begins with a slash, and every configuration with a file name
  that is not empty: the branch of \<^verbatim>\<open>hello_getattr\<close> that the path takes, which \<open>resolve\<close>
  names, is \<open>Root\<close> (the handler reports a directory) exactly when the path is \<open>/\<close>, \<open>File\<close>
  (it reports a regular file) exactly when the path is byte for byte \<open>/\<close> followed by the
  file name, and \<open>NotFound\<close> (it returns \<^verbatim>\<open>-ENOENT\<close>) otherwise.
\<close>

theorem resolve_exact:
  assumes "path = CHR ''/'' # rest" and "f_name opts \<noteq> []"
  shows "hello_getattr opts path sbuf =
           (case resolve opts path of
              None \<Rightarrow> None
            | Some Root \<Rightarrow> Some (zero_stat\<lparr>st_mode := S_IFDIR OR 493, st_nlink := 2\<rparr>, 0)
            | Some File \<Rightarrow>
                Some (zero_stat\<lparr>st_mode := S_IFREG OR 292, st_nlink := 1,
                        st_size := strlen (contents opts)\<rparr>, 0)
            | Some NotFound \<Rightarrow> Some (zero_stat, - ENOENT)) \<and>
         (resolve opts path = Some Root \<longleftrightarrow> path = ''/'') \<and>
         (resolve opts path = Some File \<longleftrightarrow> path = ''/'' @ f_name opts) \<and>
         (resolve opts path = Some NotFound \<longleftrightarrow> path \<noteq> ''/'' \<and> path \<noteq> ''/'' @ f_name opts) \<and>
         ((\<exists>st. hello_getattr opts path sbuf = Some (st, 0) \<and> st_mode st AND S_IFMT = S_IFDIR)
            \<longleftrightarrow> path = ''/'') \<and>
         ((\<exists>st. hello_getattr opts path sbuf = Some (st, 0) \<and> st_mode st AND S_IFMT = S_IFREG)
            \<longleftrightarrow> path = ''/'' @ f_name opts) \<and>
         (hello_getattr opts path sbuf = Some (zero_stat, - ENOENT)
            \<longleftrightarrow> path \<noteq> ''/'' \<and> path \<noteq> ''/'' @ f_name opts)"
proof (intro conjI)
  show "hello_getattr opts path sbuf =
           (case resolve opts path of
              None \<Rightarrow> None
            | Some Root \<Rightarrow> Some (zero_stat\<lparr>st_mode := S_IFDIR OR 493, st_nlink := 2\<rparr>, 0)
            | Some File \<Rightarrow>
                Some (zero_stat\<lparr>st_mode := S_IFREG OR 292, st_nlink := 1,
                        st_size := strlen (contents opts)\<rparr>, 0)
            | Some NotFound \<Rightarrow> Some (zero_stat, - ENOENT))"
    by (rule hello_getattr_resolve)
  show "resolve opts path = Some Root \<longleftrightarrow> path = ''/''"
    using assms by (auto simp: resolve_Cons)
  show "resolve opts path = Some File \<longleftrightarrow> path = ''/'' @ f_name opts"
    using assms by (auto simp: resolve_Cons)
  show "resolve opts path = Some NotFound \<longleftrightarrow> path \<noteq> ''/'' \<and> path \<noteq> ''/'' @ f_name opts"
    using assms by (auto simp: resolve_Cons)
  show "(\<exists>st. hello_getattr opts path sbuf = Some (st, 0) \<and> st_mode st AND S_IFMT = S_IFDIR)
            \<longleftrightarrow> path = ''/''"
    using assms
    by (auto simp: hello_getattr_Cons zero_stat_def S_IFMT_def S_IFDIR_def S_IFREG_def ENOENT_def)
  show "(\<exists>st. hello_getattr opts path sbuf = Some (st, 0) \<and> st_mode st AND S_IFMT = S_IFREG)
            \<longleftrightarrow> path = ''/'' @ f_name opts"
    using assms
    by (auto simp: hello_getattr_Cons zero_stat_def S_IFMT_def S_IFDIR_def S_IFREG_def ENOENT_def)
  show "hello_getattr opts path sbuf = Some (zero_stat, - ENOENT)
            \<longleftrightarrow> path \<noteq> ''/'' \<and> path \<noteq> ''/'' @ f_name opts"
    using assms
    by (auto simp: hello_getattr_Cons ENOENT_def)
qed

text \<open>
  C6 at the default configuration: a slash at the end, another letter case and a further
  segment are all \<open>NotFound\<close>, for \<open>resolve\<close> and for \<^verbatim>\<open>hello_getattr\<close>.
\<close>

theorem resolve_exact_witness:
  "f_name default_options \<noteq> [] \<and>
   resolve default_options ''/'' = Some Root \<and>
   resolve default_options ''/Hello'' = Some File \<and>
   resolve default_options ''/Hello/'' = Some NotFound \<and>
   resolve default_options ''/hello'' = Some NotFound \<and>
   resolve default_options ''/Hello/x'' = Some NotFound \<and>
   hello_getattr default_options ''/'' zero_stat =
     Some (zero_stat\<lparr>st_mode := 16877, st_nlink := 2\<rparr>, 0) \<and>
   hello_getattr default_options ''/Hello'' zero_stat =
     Some (zero_stat\<lparr>st_mode := 33060, st_nlink := 1, st_size := 13\<rparr>, 0) \<and>
   hello_getattr default_options ''/Hello/'' zero_stat = Some (zero_stat, - ENOENT) \<and>
   hello_getattr default_options ''/hello'' zero_stat = Some (zero_stat, - ENOENT) \<and>
   hello_getattr default_options ''/Hello/x'' zero_stat = Some (zero_stat, - ENOENT)"
  using resolve_exact [of "''/''" "[]" default_options zero_stat]
        resolve_exact [of "''/Hello''" "''Hello''" default_options zero_stat]
        resolve_exact [of "''/Hello/''" "''Hello/''" default_options zero_stat]
        resolve_exact [of "''/hello''" "''hello''" default_options zero_stat]
        resolve_exact [of "''/Hello/x''" "''Hello/x''" default_options zero_stat]
  by (simp add: default_options_def resolve_Cons hello_getattr_Cons strlen_def
      S_IFDIR_def S_IFREG_def)

text \<open>
  C10. Whatever the caller's buffer held, after a successful \<^verbatim>\<open>hello_getattr\<close> every
  field other than the mode, the link count and the size is zero: the device and inode
  numbers, the owner and the group, the block size and count and the three time stamps.
  For the root the size is zero as well.
\<close>

theorem getattr_other_fields_zero:
  assumes "hello_getattr opts path sbuf = Some (st, 0)"
  shows "st_dev st = 0 \<and> st_ino st = 0 \<and> st_uid st = 0 \<and> st_gid st = 0 \<and> st_rdev st = 0 \<and>
         st_blksize st = 0 \<and> st_blocks st = 0 \<and>
         st_atim st = \<lparr>tv_sec = 0, tv_nsec = 0\<rparr> \<and>
         st_mtim st = \<lparr>tv_sec = 0, tv_nsec = 0\<rparr> \<and>
         st_ctim st = \<lparr>tv_sec = 0, tv_nsec = 0\<rparr> \<and>
         (path = ''/'' \<longrightarrow> st_size st = 0)"
proof -
  from assms obtain c rest where p: "path = c # rest"
    by (cases path) (auto simp: hello_getattr_def)
  show ?thesis using assms unfolding p
    by (auto simp: hello_getattr_Cons zero_stat_def ENOENT_def split: if_splits)
qed

text \<open>
  C10 on a buffer that held an owner, a size and a modification time before the call.
\<close>

theorem getattr_other_fields_zero_witness:
  "hello_getattr default_options ''/Hello''
     (zero_stat\<lparr>st_uid := 1000, st_size := 7, st_mtim := \<lparr>tv_sec = 99, tv_nsec = 5\<rparr>\<rparr>) =
     Some (zero_stat\<lparr>st_mode := 33060, st_nlink := 1, st_size := 13\<rparr>, 0) \<and>
   st_uid (zero_stat\<lparr>st_mode := 33060, st_nlink := 1, st_size := 13\<rparr>) = 0 \<and>
   st_mtim (zero_stat\<lparr>st_mode := 33060, st_nlink := 1, st_size := 13\<rparr>) =
     \<lparr>tv_sec = 0, tv_nsec = 0\<rparr>"
proof -
  have run: "hello_getattr default_options ''/Hello''
     (zero_stat\<lparr>st_uid := 1000, st_size := 7, st_mtim := \<lparr>tv_sec = 99, tv_nsec = 5\<rparr>\<rparr>) =
     Some (zero_stat\<lparr>st_mode := 33060, st_nlink := 1, st_size := 13\<rparr>, 0)"
    by (simp add: hello_getattr_Cons default_options_def strlen_def S_IFREG_def)
  from getattr_other_fields_zero [OF run] run show ?thesis by simp
qed

section \<open>Listing the directory\<close>

text \<open>
  C5. For every configuration, \<^verbatim>\<open>hello_readdir\<close> on \<open>/\<close> hands exactly the three names
  \<open>.\<close>, \<open>..\<close> and the file name to the filler, in that order, and returns 0; with a filler
  that keeps the names, the listing is that list. On every other path, the path of the
  configured file among them, it returns \<^verbatim>\<open>-ENOENT\<close> and leaves the buffer as it was.
\<close>

theorem readdir_root_entries:
  "hello_readdir opts ''/'' buff filler =
     (filler (filler (filler buff ''.'' None 0 0) ''..'' None 0 0) (f_name opts) None 0 0, 0) \<and>
   hello_readdir opts ''/'' [] list_filler = ([''.'', ''..'', f_name opts], 0) \<and>
   (path \<noteq> ''/'' \<longrightarrow> hello_readdir opts path buff filler = (buff, - ENOENT))"
  by (simp add: hello_readdir_def list_filler_def)

text \<open>
  C5 on the path of the default file, which is no directory, and on the root of a
  configuration with another file name.
\<close>

theorem readdir_root_entries_witness:
  "''/Hello'' \<noteq> ''/'' \<and>
   hello_readdir default_options ''/Hello'' [] list_filler = ([], - ENOENT) \<and>
   hello_readdir \<lparr>f_name = ''data.txt'', contents = ''xy''\<rparr> ''/'' [] list_filler =
     ([''.'', ''..'', ''data.txt''], 0)"
  using readdir_root_entries [of default_options "[]" list_filler "''/Hello''"]
        readdir_root_entries [of "\<lparr>f_name = ''data.txt'', contents = ''xy''\<rparr>" "[]" list_filler "''/''"]
  by (simp add: list_filler_def)

section \<open>Opening the file\<close>

lemma hello_open_Cons:
  "hello_open opts (c # rest) file_info =
     Some (if rest \<noteq> f_name opts then - ENOENT
           else if flags file_info AND O_ACCMODE \<noteq> O_RDONLY then - EACCES else 0)"
  by (simp add: hello_open_def)

text \<open>
  C2, as amended. For every path and every configuration with a file name that is not
  empty, \<^verbatim>\<open>hello_open\<close> returns \<^verbatim>\<open>-ENOENT\<close> for every path that does not resolve to the
  file, whatever the flags: this check comes first. For the path of the file it returns 0
  exactly when the access mode of the flags, \<^verbatim>\<open>flags & O_ACCMODE\<close>, is \<^verbatim>\<open>O_RDONLY\<close>, and
  \<^verbatim>\<open>-EACCES\<close> otherwise. The flags outside the access mode are not looked at.
\<close>

theorem open_for_read:
  assumes "path \<noteq> []" and "f_name opts \<noteq> []"
  shows "(resolve opts path \<noteq> Some File \<longrightarrow> hello_open opts path file_info = Some (- ENOENT)) \<and>
         (resolve opts path = Some File \<longrightarrow>
            hello_open opts path file_info =
              Some (if flags file_info AND O_ACCMODE = O_RDONLY then 0 else - EACCES))"
proof -
  from assms obtain c rest where p: "path = c # rest"
    by (cases path) auto
  show ?thesis using assms(2) unfolding p
    by (auto simp: resolve_Cons hello_open_Cons)
qed

text \<open>
  C2 at the default configuration: reading is granted; write only and read-write are
  denied, also with the append and the truncate flag; the root and a missing path are no
  such entry.
\<close>

theorem open_for_read_witness:
  "''/Hello'' \<noteq> [] \<and> f_name default_options \<noteq> [] \<and>
   resolve default_options ''/Hello'' = Some File \<and>
   hello_open default_options ''/Hello'' \<lparr>flags = O_RDONLY\<rparr> = Some 0 \<and>
   hello_open default_options ''/Hello'' \<lparr>flags = O_WRONLY\<rparr> = Some (- EACCES) \<and>
   hello_open default_options ''/Hello'' \<lparr>flags = O_RDWR OR O_TRUNC\<rparr> = Some (- EACCES) \<and>
   hello_open default_options ''/Hello'' \<lparr>flags = O_WRONLY OR O_APPEND\<rparr> = Some (- EACCES) \<and>
   resolve default_options ''/'' = Some Root \<and>
   hello_open default_options ''/'' \<lparr>flags = O_RDONLY\<rparr> = Some (- ENOENT) \<and>
   hello_open default_options ''/missing'' \<lparr>flags = O_WRONLY\<rparr> = Some (- ENOENT)"
  using open_for_read [of "''/Hello''" default_options "\<lparr>flags = O_RDONLY\<rparr>"]
        open_for_read [of "''/Hello''" default_options "\<lparr>flags = O_WRONLY\<rparr>"]
        open_for_read [of "''/Hello''" default_options "\<lparr>flags = O_RDWR OR O_TRUNC\<rparr>"]
        open_for_read [of "''/Hello''" default_options "\<lparr>flags = O_WRONLY OR O_APPEND\<rparr>"]
        open_for_read [of "''/''" default_options "\<lparr>flags = O_RDONLY\<rparr>"]
        open_for_read [of "''/missing''" default_options "\<lparr>flags = O_WRONLY\<rparr>"]
  by (simp add: resolve_Cons default_options_def
      O_RDONLY_def O_WRONLY_def O_RDWR_def O_APPEND_def O_TRUNC_def O_ACCMODE_def)

text \<open>
  C2 as it is stated fails on the code: the append flag and the truncate flag count as
  access that is not read only and would be denied, but \<^verbatim>\<open>hello_open\<close> masks the flags
  with \<^verbatim>\<open>O_ACCMODE\<close>, so a request to open the file read only with \<^verbatim>\<open>O_APPEND\<close> or with
  \<^verbatim>\<open>O_TRUNC\<close> succeeds.
\<close>

theorem open_for_read_counterexample:
  "resolve default_options ''/Hello'' = Some File \<and>
   hello_open default_options ''/Hello'' \<lparr>flags = O_RDONLY OR O_APPEND\<rparr> = Some 0 \<and>
   hello_open default_options ''/Hello'' \<lparr>flags = O_RDONLY OR O_TRUNC\<rparr> = Some 0"
  by (simp add: resolve_Cons hello_open_Cons default_options_def
      O_RDONLY_def O_APPEND_def O_TRUNC_def O_ACCMODE_def)

section \<open>An empty file name\<close>

lemma memcpy_length: "memcpy src off n = Some bytes \<Longrightarrow> length bytes = n"
  by (auto simp: memcpy_def split: if_splits)

lemma hello_read_not_file:
  "hello_read opts (c # rest) sz offset = Some ([], - ENOENT) \<longleftrightarrow> rest \<noteq> f_name opts"
proof
  assume "rest \<noteq> f_name opts"
  then show "hello_read opts (c # rest) sz offset = Some ([], - ENOENT)"
    by (simp add: hello_read_def)
next
  assume a: "hello_read opts (c # rest) sz offset = Some ([], - ENOENT)"
  show "rest \<noteq> f_name opts"
  proof
    assume "rest = f_name opts"
    with a show False
      by (auto simp: hello_read_def Let_def ENOENT_def unsigned_eq_0_iff
          split: if_splits option.splits dest!: memcpy_length)
  qed
qed

text \<open>
  C9. \<^verbatim>\<open>hello_open\<close> and \<^verbatim>\<open>hello_read\<close> take a path for the file exactly when the bytes
  behind its first byte are the file name; they have no check for the root. With a file
  name that is not empty, opening the root path is refused. With the empty file name the
  root path, which still resolves to \<open>Root\<close>, can be opened read only, and reading it
  serves the contents (within the machine ranges of C1).
\<close>

theorem root_is_file_when_name_empty:
  "(hello_open opts (c # rest) file_info = Some (- ENOENT) \<longleftrightarrow> rest \<noteq> f_name opts) \<and>
   (hello_read opts (c # rest) sz offset = Some ([], - ENOENT) \<longleftrightarrow> rest \<noteq> f_name opts) \<and>
   (f_name opts \<noteq> [] \<longrightarrow> hello_open opts ''/'' file_info = Some (- ENOENT)) \<and>
   (f_name opts = [] \<longrightarrow>
      resolve opts ''/'' = Some Root \<and>
      hello_open opts ''/'' \<lparr>flags = O_RDONLY\<rparr> = Some 0 \<and>
      (length (contents opts) < 2 ^ 64 \<longrightarrow>
       (unat offset < length (contents opts) \<longrightarrow> unat offset + unat sz < 2 ^ 64) \<longrightarrow>
       min (unat sz) (length (contents opts) - unat offset) < 2 ^ 31 \<longrightarrow>
       hello_read opts ''/'' sz offset =
         Some (take (unat sz) (drop (unat offset) (contents opts)),
               int (min (unat sz) (length (contents opts) - unat offset)))))"
proof (intro conjI impI)
  show "hello_open opts (c # rest) file_info = Some (- ENOENT) \<longleftrightarrow> rest \<noteq> f_name opts"
    by (simp add: hello_open_Cons ENOENT_def EACCES_def)
  show "hello_read opts (c # rest) sz offset = Some ([], - ENOENT) \<longleftrightarrow> rest \<noteq> f_name opts"
    by (rule hello_read_not_file)
  show "hello_open opts ''/'' file_info = Some (- ENOENT)" if "f_name opts \<noteq> []"
    using that by (auto simp: hello_open_Cons)
  show "resolve opts ''/'' = Some Root"
    by (simp add: resolve_Cons)
  show "hello_open opts ''/'' \<lparr>flags = O_RDONLY\<rparr> = Some 0" if "f_name opts = []"
    using that by (simp add: hello_open_Cons O_RDONLY_def)
  show "hello_read opts ''/'' sz offset =
         Some (take (unat sz) (drop (unat offset) (contents opts)),
               int (min (unat sz) (length (contents opts) - unat offset)))"
    if "f_name opts = []" and "length (contents opts) < 2 ^ 64"
      and "unat offset < length (contents opts) \<longrightarrow> unat offset + unat sz < 2 ^ 64"
      and "min (unat sz) (length (contents opts) - unat offset) < 2 ^ 31"
  proof -
    have "ptr_add ''/'' 1 = Some (f_name opts)"
      using that(1) by simp
    then show ?thesis using that(2-4) by (rule hello_read_slice)
  qed
qed

text \<open>
  C9 on a configuration with the empty name and the contents \<open>xy\<close>, and on the default
  configuration, where the root cannot be opened.
\<close>

theorem root_is_file_when_name_empty_witness:
  "hello_open \<lparr>f_name = [], contents = ''xy''\<rparr> ''/'' \<lparr>flags = O_RDONLY\<rparr> = Some 0 \<and>
   hello_read \<lparr>f_name = [], contents = ''xy''\<rparr> ''/'' 10 1 = Some (''y'', 1) \<and>
   resolve \<lparr>f_name = [], contents = ''xy''\<rparr> ''/'' = Some Root \<and>
   hello_open default_options ''/'' \<lparr>flags = O_RDONLY\<rparr> = Some (- ENOENT)"
  using root_is_file_when_name_empty
          [of "\<lparr>f_name = [], contents = ''xy''\<rparr>" "CHR ''/''" "[]" "\<lparr>flags = O_RDONLY\<rparr>" 10 1]
        root_is_file_when_name_empty
          [of default_options "CHR ''/''" "[]" "\<lparr>flags = O_RDONLY\<rparr>" 10 1]
  by (simp add: default_options_def)

section \<open>Sequences of requests\<close>

subsection \<open>The handlers on the store and the handlers on values\<close>












subsection \<open>Worlds with the same frame\<close>
















subsection \<open>Served requests\<close>









end
